theory Spec2Isabelle
  imports Main "HOL-Library.Word"
begin

section \<open>JavaScript strings\<close>

text \<open>
  A JavaScript string is a sequence of UTF-16 code units.  \<^verbatim>\<open>length\<close>,
  \<^verbatim>\<open>substring\<close> and a regular expression without the \<^verbatim>\<open>u\<close> flag all
  count and match code units, so the model is a list of 16-bit words.
\<close>

type_synonym code_unit = "16 word"
type_synonym js_string = "code_unit list"

text \<open>An ASCII literal of the source, as code units.\<close>

definition js :: "string \<Rightarrow> js_string" where
  "js cs = map of_char cs"

text \<open>
  The character class \<^verbatim>\<open>\s\<close> of ECMAScript: WhiteSpace (TAB, VT, FF, SP, NBSP,
  ZWNBSP and the Unicode space separators) together with LineTerminator (LF, CR, LS, PS).
\<close>

definition is_whitespace :: "code_unit \<Rightarrow> bool" where
  "is_whitespace c \<longleftrightarrow>
     c = 0x0009 \<or> c = 0x000A \<or> c = 0x000B \<or> c = 0x000C \<or> c = 0x000D \<or>
     c = 0x0020 \<or> c = 0x00A0 \<or> c = 0x1680 \<or> (0x2000 \<le> c \<and> c \<le> 0x200A) \<or>
     c = 0x2028 \<or> c = 0x2029 \<or> c = 0x202F \<or> c = 0x205F \<or> c = 0x3000 \<or>
     c = 0xFEFF"

text \<open>
  \<^verbatim>\<open>s.substring(start, end)\<close>: both arguments are clamped to \<open>[0, length]\<close>, swapped
  when out of order, and the code units from the smaller (inclusive) to the larger
  (exclusive) are returned.
\<close>

definition substring :: "js_string \<Rightarrow> int \<Rightarrow> int \<Rightarrow> js_string" where
  "substring s start end =
     (let len = int (length s);
          finalStart = min (max start 0) len;
          finalEnd = min (max end 0) len;
          from = min finalStart finalEnd;
          to = max finalStart finalEnd
      in take (nat (to - from)) (drop (nat from) s))"

text \<open>\<^verbatim>\<open>s.startsWith(p)\<close> and \<^verbatim>\<open>s.includes(p)\<close>.\<close>

fun startsWith :: "js_string \<Rightarrow> js_string \<Rightarrow> bool" where
  "startsWith s [] = True"
| "startsWith [] (p # ps) = False"
| "startsWith (c # cs) (p # ps) = (c = p \<and> startsWith cs ps)"

fun includes_str :: "js_string \<Rightarrow> js_string \<Rightarrow> bool" where
  "includes_str [] p = (p = [])"
| "includes_str (c # cs) p = (startsWith (c # cs) p \<or> includes_str cs p)"

text \<open>\<^verbatim>\<open>items.join(' ')\<close>.\<close>

fun join :: "js_string \<Rightarrow> js_string list \<Rightarrow> js_string" where
  "join sep [] = []"
| "join sep [x] = x"
| "join sep (x # y # ys) = x @ sep @ join sep (y # ys)"

subsection \<open>Splitting on \<^verbatim>\<open>/\s+/\<close>\<close>

text \<open>
  \<^verbatim>\<open>S.split(/\s+/)\<close> runs the split algorithm of ECMAScript
  (RegExp.prototype[Symbol.split]) with the pattern \<^verbatim>\<open>\s+\<close> and no limit.  For a
  non-empty \<open>S\<close> of length \<open>size\<close> it keeps two positions, \<open>p\<close> (start of the piece being
  collected) and \<open>q\<close> (where a match is tried next), and the result array \<open>A\<close>:

  \<^item> while \<open>q < size\<close>: match the pattern at exactly \<open>q\<close>.  On failure \<open>q := q + 1\<close>.  On
    success let \<open>e\<close> be the smaller of the end of the match and \<open>size\<close>; if \<open>e = p\<close> then
    \<open>q := q + 1\<close>, otherwise append \<open>S[p, q)\<close> to \<open>A\<close> and set \<open>p := e\<close>, \<open>q := e\<close>;
  \<^item> after the loop append \<open>S[p, size)\<close> and return \<open>A\<close>.

  For the empty string the result is \<open>[S]\<close>, since the pattern does not match it.

  \<open>match_at S q\<close> is the match of \<^verbatim>\<open>\s+\<close> at exactly \<open>q\<close>: it succeeds iff \<open>S[q]\<close> is
  whitespace, and being greedy it ends where the whitespace run that starts at \<open>q\<close> ends.
\<close>

definition match_at :: "js_string \<Rightarrow> nat \<Rightarrow> nat option" where
  "match_at S q =
     (if q < length S \<and> is_whitespace (S ! q)
      then Some (q + length (takeWhile is_whitespace (drop q S)))
      else None)"

function split_loop :: "js_string \<Rightarrow> nat \<Rightarrow> nat \<Rightarrow> js_string list \<Rightarrow> js_string list" where
  "split_loop S p q A =
     (if q < length S then
        (case match_at S q of
           None \<Rightarrow> split_loop S p (q + 1) A
         | Some lastIndex \<Rightarrow>
             (let e = min lastIndex (length S)
              in if e = p then split_loop S p (q + 1) A
                 else split_loop S e e (A @ [substring S (int p) (int q)])))
      else A @ [substring S (int p) (int (length S))])"
  by pat_completeness auto

termination split_loop
proof (relation "measure (\<lambda>(S, p, q, A). length S - q)", goal_cases)
  case 1
  show ?case by simp
next
  case (2 S p q A)
  then show ?case by simp
next
  case (3 S p q A lastIndex e)
  then show ?case by simp
next
  case (4 S p q A lastIndex e)
  from \<open>match_at S q = Some lastIndex\<close>
  have ws: "is_whitespace (S ! q)"
    and li: "lastIndex = q + length (takeWhile is_whitespace (drop q S))"
    by (auto simp: match_at_def split: if_splits)
  from \<open>q < length S\<close> have "drop q S = S ! q # drop (Suc q) S"
    by (simp add: Cons_nth_drop_Suc)
  with ws li have "q < lastIndex" by simp
  with \<open>q < length S\<close> \<open>e = min lastIndex (length S)\<close> show ?case by simp
qed

definition split_whitespace :: "js_string \<Rightarrow> js_string list" where
  "split_whitespace S = (if S = [] then [S] else split_loop S 0 0 [])"

text \<open>
  The specification's wording of the same operation, ``split on whitespace runs'': the
  text is cut at every maximal run of whitespace, and the tokens are the pieces between
  the runs (the piece before a leading run and the piece after a trailing run are empty
  tokens).
\<close>

function tokens_between_runs :: "js_string \<Rightarrow> js_string list" where
  "tokens_between_runs s =
     (let token = takeWhile (\<lambda>c. \<not> is_whitespace c) s;
          rest = dropWhile (\<lambda>c. \<not> is_whitespace c) s
      in if rest = [] then [token]
         else token # tokens_between_runs (dropWhile is_whitespace rest))"
  by pat_completeness auto
termination
proof (relation "measure length", goal_cases)
  case 1
  show ?case by simp
next
  case (2 s token rest)
  then obtain c cs where r: "rest = c # cs" and "is_whitespace c"
    by (metis (mono_tags, lifting) hd_dropWhile list.collapse)
  then have "length (dropWhile is_whitespace rest) \<le> length cs"
    by (simp add: length_dropWhile_le)
  moreover have "length rest \<le> length s"
    using 2 by (simp add: length_dropWhile_le)
  ultimately show ?case using r by simp
qed

section \<open>The speech hook and the application state\<close>

text \<open>
  \<^verbatim>\<open>VoiceOption\<close> is the catalog's voice; \<^verbatim>\<open>SpeechSynthesisVoice\<close> is the backend's own
  voice object, of which the hook reads \<^verbatim>\<open>name\<close>, \<^verbatim>\<open>lang\<close> and \<^verbatim>\<open>voiceURI\<close>.
\<close>

record VoiceOption =
  name :: js_string
  lang :: js_string
  uri :: js_string

record SpeechSynthesisVoice =
  voice_name :: js_string
  voice_lang :: js_string
  voiceURI :: js_string

text \<open>
  The callback \<^verbatim>\<open>onBoundary\<close> handed to the hook is the closure \<^verbatim>\<open>handleBoundary\<close> of the
  render that created it; the only variable it captures is \<^verbatim>\<open>extractedText\<close>.  The closure
  is represented by its captured text.
\<close>

datatype boundary_callback = HandleBoundary (capturedText: js_string)

text \<open>
  An utterance object: \<open>handle\<close> is its identity (the number of utterances constructed
  before it), \<open>utterance_text\<close> the constructor argument, \<open>voice\<close> is \<^verbatim>\<open>null\<close> unless
  assigned, \<open>onboundary\<close> the installed boundary callback.  \<^verbatim>\<open>onend\<close> and \<^verbatim>\<open>onerror\<close>
  capture nothing but the state setters and \<^verbatim>\<open>onEnd\<close> (which is \<^verbatim>\<open>handleEnd\<close> of \<^verbatim>\<open>App\<close>,
  the same closure in every render); they are the functions \<open>utterance_onend\<close> and
  \<open>utterance_onerror\<close> below.
\<close>

record SpeechSynthesisUtterance =
  handle :: nat
  utterance_text :: js_string
  voice :: "SpeechSynthesisVoice option"
  onboundary :: boundary_callback

text \<open>The requests the hook sends to \<^verbatim>\<open>window.speechSynthesis\<close>.\<close>

datatype backend_request =
  Cancel | Speak SpeechSynthesisUtterance | PauseRequest | ResumeRequest

text \<open>
  The state: the hook's \<^verbatim>\<open>useState\<close>/\<^verbatim>\<open>useRef\<close> cells, the cells of \<^verbatim>\<open>App\<close>, and the
  backend as the code sees it: the list \<^verbatim>\<open>getVoices()\<close> returns, the requests received so
  far (oldest first) and the number of utterance objects constructed.
\<close>

record state =
  voices :: "VoiceOption list"
  selectedVoice :: "VoiceOption option"
  isSpeaking :: bool
  isPaused :: bool
  utteranceRef :: "SpeechSynthesisUtterance option"
  extractedText :: js_string
  isProcessing :: bool
  error :: "string option"
  currentWordIndex :: int
  getVoices :: "SpeechSynthesisVoice list"
  requests :: "backend_request list"
  constructed :: nat

text \<open>The initial values of the cells (first render), over a backend with voice list \<open>vs\<close>.\<close>

definition initial :: "SpeechSynthesisVoice list \<Rightarrow> state" where
  "initial vs =
     \<lparr>voices = [], selectedVoice = None, isSpeaking = False, isPaused = False,
      utteranceRef = None, extractedText = [], isProcessing = False, error = None,
      currentWordIndex = - 1, getVoices = vs, requests = [], constructed = 0\<rparr>"

datatype play_state = Idle | Speaking | Paused

definition playState :: "state \<Rightarrow> play_state" where
  "playState s = (if isSpeaking s then Speaking else if isPaused s then Paused else Idle)"

subsection \<open>App: boundary and end callbacks\<close>

definition handleBoundary :: "js_string \<Rightarrow> int \<Rightarrow> state \<Rightarrow> state" where
  "handleBoundary extractedText_seen charIndex s =
     (let textUpToChar = substring extractedText_seen 0 charIndex;
          wordsUpToChar = split_whitespace textUpToChar;
          wordIndex = int (length wordsUpToChar) - 1
      in s\<lparr>currentWordIndex := wordIndex\<rparr>)"

definition handleEnd :: "state \<Rightarrow> state" where
  "handleEnd s = s\<lparr>currentWordIndex := - 1\<rparr>"

fun call_boundary :: "boundary_callback \<Rightarrow> int \<Rightarrow> state \<Rightarrow> state" where
  "call_boundary (HandleBoundary txt) charIndex s = handleBoundary txt charIndex s"

text \<open>\<^verbatim>\<open>words\<close> of \<^verbatim>\<open>App\<close>.\<close>

definition words :: "state \<Rightarrow> js_string list" where
  "words s = split_whitespace (extractedText s)"

subsection \<open>The hook \<^verbatim>\<open>useSpeechSynthesis\<close>\<close>

text \<open>
  \<^verbatim>\<open>handleVoicesChanged\<close> is defined inside an effect whose dependency list is empty.  The
  variable \<^verbatim>\<open>selectedVoice\<close> it tests is therefore the one of the render in which the effect
  ran, passed here as \<open>selectedVoice_seen\<close>; the setters write the current cells.
\<close>

definition handleVoicesChanged :: "VoiceOption option \<Rightarrow> state \<Rightarrow> state" where
  "handleVoicesChanged selectedVoice_seen s =
     (let availableVoices =
            map (\<lambda>v. \<lparr>name = voice_name v, lang = voice_lang v, uri = voiceURI v\<rparr>)
              (filter (\<lambda>voice. startsWith (voice_lang voice) (js ''en'') \<or>
                               startsWith (voice_lang voice) (js ''es'') \<or>
                               startsWith (voice_lang voice) (js ''pt''))
                 (getVoices s));
          s1 = s\<lparr>voices := availableVoices\<rparr>
      in if length availableVoices > 0 \<and> selectedVoice_seen = None then
           (let defaultVoice =
                  (case find (\<lambda>v. includes_str (name v) (js ''Google'') \<and>
                                     startsWith (lang v) (js ''en'')) availableVoices of
                     Some v \<Rightarrow> v
                   | None \<Rightarrow> availableVoices ! 0)
            in s1\<lparr>selectedVoice := Some defaultVoice\<rparr>)
         else s1)"

text \<open>
  The effect runs once, after the first render, where \<^verbatim>\<open>selectedVoice\<close> is the initial
  \<^verbatim>\<open>null\<close> of its \<^verbatim>\<open>useState\<close>.  It calls the handler directly (\<open>mount\<close>) and registers
  the same closure for every later \<^verbatim>\<open>voiceschanged\<close> event of the backend
  (\<open>voiceschanged\<close>, with the backend's new list).
\<close>

definition mount :: "state \<Rightarrow> state" where
  "mount s = handleVoicesChanged None s"

definition voiceschanged :: "SpeechSynthesisVoice list \<Rightarrow> state \<Rightarrow> state" where
  "voiceschanged vs s = handleVoicesChanged None (s\<lparr>getVoices := vs\<rparr>)"

text \<open>\<^verbatim>\<open>setSelectedVoice\<close>, which \<^verbatim>\<open>App\<close> hands to the voice selector as \<^verbatim>\<open>onVoiceChange\<close>.\<close>

definition setSelectedVoice :: "VoiceOption \<Rightarrow> state \<Rightarrow> state" where
  "setSelectedVoice v s = s\<lparr>selectedVoice := Some v\<rparr>"

text \<open>
  \<^verbatim>\<open>play\<close>, \<^verbatim>\<open>pause\<close> and \<^verbatim>\<open>stop\<close> are rebuilt whenever a cell they read changes, so they
  read the current cells.  In \<^verbatim>\<open>text && selectedVoice\<close> the empty string (and the argument
  left out) is falsy and a voice object is truthy.  \<^verbatim>\<open>play\<close> cancels, then constructs the
  utterance, looks the selected voice up by its URI in the backend's list, assigns it when
  found, installs the callbacks, stores the utterance in the ref and requests \<^verbatim>\<open>speak\<close>.
\<close>

definition play :: "boundary_callback \<Rightarrow> js_string \<Rightarrow> state \<Rightarrow> state" where
  "play onBoundary txt s =
     (if isPaused s \<and> utteranceRef s \<noteq> None then
        s\<lparr>requests := requests s @ [ResumeRequest], isPaused := False, isSpeaking := True\<rparr>
      else if txt \<noteq> [] then
        (case selectedVoice s of
           None \<Rightarrow> s
         | Some selected \<Rightarrow>
             (let voiceObject = find (\<lambda>v. voiceURI v = uri selected) (getVoices s);
                  utterance = \<lparr>handle = constructed s, utterance_text = txt,
                               voice = voiceObject, onboundary = onBoundary\<rparr>
              in s\<lparr>requests := requests s @ [Cancel, Speak utterance],
                    constructed := Suc (constructed s),
                    utteranceRef := Some utterance,
                    isSpeaking := True, isPaused := False\<rparr>))
      else s)"

definition pause :: "state \<Rightarrow> state" where
  "pause s =
     (if isSpeaking s \<and> \<not> isPaused s then
        s\<lparr>requests := requests s @ [PauseRequest], isPaused := True, isSpeaking := False\<rparr>
      else s)"

definition stop :: "state \<Rightarrow> state" where
  "stop s =
     handleEnd (s\<lparr>requests := requests s @ [Cancel], isSpeaking := False, isPaused := False,
                  utteranceRef := None\<rparr>)"

text \<open>The handlers \<^verbatim>\<open>play\<close> installs on the utterance, run when the backend fires the event.\<close>

definition utterance_onboundary :: "SpeechSynthesisUtterance \<Rightarrow> int \<Rightarrow> state \<Rightarrow> state" where
  "utterance_onboundary u charIndex s = call_boundary (onboundary u) charIndex s"

definition utterance_onend :: "SpeechSynthesisUtterance \<Rightarrow> state \<Rightarrow> state" where
  "utterance_onend u s = handleEnd (s\<lparr>isSpeaking := False, isPaused := False\<rparr>)"

definition utterance_onerror :: "SpeechSynthesisUtterance \<Rightarrow> state \<Rightarrow> state" where
  "utterance_onerror u s = s\<lparr>isSpeaking := False, isPaused := False\<rparr>"

subsection \<open>App: the controls and loading a text\<close>

text \<open>The play button calls \<^verbatim>\<open>play(extractedText)\<close> of the current render.\<close>

definition app_play :: "state \<Rightarrow> state" where
  "app_play s = play (HandleBoundary (extractedText s)) (extractedText s) s"

definition handleFileProcessed :: "js_string \<Rightarrow> state \<Rightarrow> state" where
  "handleFileProcessed txt s = (stop s)\<lparr>extractedText := txt\<rparr>"

section \<open>Decoding an uploaded file\<close>

text \<open>
  The collaborators of \<^verbatim>\<open>fileParser.ts\<close> are outside the repository and are
  parameters of the model:

  \<^item> reading the \<^verbatim>\<open>File\<close> with a \<^verbatim>\<open>FileReader\<close> fires \<^verbatim>\<open>onerror\<close> (\<open>ReadFailed\<close>) or
    \<^verbatim>\<open>onload\<close> with a result that is missing (\<open>Loaded None\<close>) or the bytes;
  \<^item> \<^verbatim>\<open>window.pdfjsLib\<close> may be absent; its \<^verbatim>\<open>getDocument\<close> rejects (\<open>None\<close>) or yields the
    pages, and fetching a page and its text content rejects (\<open>None\<close>) or yields the
    \<^verbatim>\<open>str\<close> of its items;
  \<^item> \<^verbatim>\<open>window.mammoth\<close> may be absent; its \<^verbatim>\<open>extractRawText\<close> rejects (\<open>None\<close>) or yields
    the text.

  A rejected promise or a thrown \<^verbatim>\<open>Error\<close> is \<open>Inl\<close> of its message.
\<close>

type_synonym bytes = "8 word list"

datatype read_outcome = ReadFailed | Loaded "bytes option"

record File =
  file_type :: js_string
  file_read :: read_outcome

type_synonym pdf_page = "js_string list option"
type_synonym pdf_document = "pdf_page list"

record window =
  pdfjsLib :: "(bytes \<Rightarrow> pdf_document option) option"
  mammoth :: "(bytes \<Rightarrow> js_string option) option"

text \<open>The loop over the pages \<open>i = 1 .. numPages\<close>; a rejection leaves the loop.\<close>

fun pages_text :: "pdf_page list \<Rightarrow> js_string \<Rightarrow> js_string option" where
  "pages_text [] textContent = Some textContent"
| "pages_text (None # pages) textContent = None"
| "pages_text (Some items # pages) textContent =
     pages_text pages (textContent @ join (js '' '') items @ [0x000A])"

definition parsePdf :: "window \<Rightarrow> File \<Rightarrow> string + js_string" where
  "parsePdf w file =
     (case pdfjsLib w of
        None \<Rightarrow> Inl ''PDF processing library failed to load. Please check your internet connection and refresh the page.''
      | Some getDocument \<Rightarrow>
          (case file_read file of
             ReadFailed \<Rightarrow> Inl ''An error occurred while reading the file.''
           | Loaded None \<Rightarrow> Inl ''Failed to read the file's contents.''
           | Loaded (Some result) \<Rightarrow>
               (case getDocument result of
                  None \<Rightarrow> Inl ''Could not parse the PDF file. It may be corrupt or encrypted.''
                | Some pdf \<Rightarrow>
                    (case pages_text pdf [] of
                       None \<Rightarrow> Inl ''Could not parse the PDF file. It may be corrupt or encrypted.''
                     | Some textContent \<Rightarrow> Inr textContent))))"

definition parseDocx :: "window \<Rightarrow> File \<Rightarrow> string + js_string" where
  "parseDocx w file =
     (case mammoth w of
        None \<Rightarrow> Inl ''Word document processing library failed to load. Please check your internet connection and refresh the page.''
      | Some extractRawText \<Rightarrow>
          (case file_read file of
             ReadFailed \<Rightarrow> Inl ''An error occurred while reading the file.''
           | Loaded None \<Rightarrow> Inl ''Failed to read the file's contents.''
           | Loaded (Some result) \<Rightarrow>
               (case extractRawText result of
                  None \<Rightarrow> Inl ''Could not parse the DOCX file. It may be corrupt or not a valid .docx file.''
                | Some v \<Rightarrow> Inr v)))"

text \<open>
  \<^verbatim>\<open>handleFile\<close> of the upload component, taken as one step from the choice of the file
  to the end of \<^verbatim>\<open>finally\<close>: the \<^verbatim>\<open>try\<close> block yields the text or the message of the
  error caught, and \<^verbatim>\<open>finally\<close> clears the processing flag.
\<close>

definition handleFile :: "window \<Rightarrow> File option \<Rightarrow> state \<Rightarrow> state" where
  "handleFile w file s =
     (case file of
        None \<Rightarrow> s
      | Some f \<Rightarrow>
          if isProcessing s then s
          else
            (let s1 = s\<lparr>error := None, isProcessing := True\<rparr>;
                 outcome =
                   (if file_type f = js ''application/pdf'' then parsePdf w f
                    else if file_type f =
                        js ''application/vnd.openxmlformats-officedocument.wordprocessingml.document''
                      then parseDocx w f
                    else Inl ''Unsupported file type. Please upload a PDF or DOCX file.'');
                 s2 = (case outcome of
                         Inr txt \<Rightarrow> handleFileProcessed txt s1
                       | Inl message \<Rightarrow>
                           s1\<lparr>error := Some (if message = [] then ''Failed to process the file.''
                                               else message)\<rparr>)
             in s2\<lparr>isProcessing := False\<rparr>))"

section \<open>Events\<close>

text \<open>
  The host runs one handler at a time.  An event is a user action or a backend event; the
  backend fires utterance events only on utterances it was given by a \<^verbatim>\<open>speak\<close> request,
  named here by their handle.
\<close>

datatype event =
    VoicesChanged "SpeechSynthesisVoice list"
  | SelectVoice VoiceOption
  | PlayButton
  | PauseButton
  | StopButton
  | FileChosen window "File option"
  | BoundaryEvent nat int
  | EndEvent nat
  | ErrorEvent nat

fun spoken :: "backend_request list \<Rightarrow> nat \<Rightarrow> SpeechSynthesisUtterance option" where
  "spoken [] h = None"
| "spoken (Speak u # rs) h = (if handle u = h then Some u else spoken rs h)"
| "spoken (r # rs) h = spoken rs h"

fun fire :: "event \<Rightarrow> state \<Rightarrow> state" where
  "fire (VoicesChanged vs) s = voiceschanged vs s"
| "fire (SelectVoice v) s = setSelectedVoice v s"
| "fire PlayButton s = app_play s"
| "fire PauseButton s = pause s"
| "fire StopButton s = stop s"
| "fire (FileChosen w file) s = handleFile w file s"
| "fire (BoundaryEvent h charIndex) s =
     (case spoken (requests s) h of None \<Rightarrow> s | Some u \<Rightarrow> utterance_onboundary u charIndex s)"
| "fire (EndEvent h) s =
     (case spoken (requests s) h of None \<Rightarrow> s | Some u \<Rightarrow> utterance_onend u s)"
| "fire (ErrorEvent h) s =
     (case spoken (requests s) h of None \<Rightarrow> s | Some u \<Rightarrow> utterance_onerror u s)"

text \<open>Mounting over a backend with voice list \<open>vs\<close>, then the events in order.\<close>

definition run :: "SpeechSynthesisVoice list \<Rightarrow> event list \<Rightarrow> state" where
  "run vs events = fold fire events (mount (initial vs))"

section \<open>Example inputs\<close>

text \<open>Two English backend voices, neither a Google voice, and their catalog entries.\<close>

definition alice :: SpeechSynthesisVoice where
  "alice = \<lparr>voice_name = js ''Alice'', voice_lang = js ''en-US'', voiceURI = js ''urn:alice''\<rparr>"

definition bob :: SpeechSynthesisVoice where
  "bob = \<lparr>voice_name = js ''Bob'', voice_lang = js ''en-GB'', voiceURI = js ''urn:bob''\<rparr>"

definition option_of :: "SpeechSynthesisVoice \<Rightarrow> VoiceOption" where
  "option_of v = \<lparr>name = voice_name v, lang = voice_lang v, uri = voiceURI v\<rparr>"

text \<open>
  A stand-in for pdf.js: it rejects bytes that do not start with \<^verbatim>\<open>%PDF\<close> and otherwise
  yields one page whose single item is the rest of the bytes as text.  No DOCX library.
\<close>

definition toy_pdfjs :: "bytes \<Rightarrow> pdf_document option" where
  "toy_pdfjs b =
     (if take 4 b = [0x25, 0x50, 0x44, 0x46] then Some [Some [map ucast (drop 4 b)]] else None)"

definition toy_window :: window where
  "toy_window = \<lparr>pdfjsLib = Some toy_pdfjs, mammoth = None\<rparr>"

definition pdf_file :: "bytes \<Rightarrow> File" where
  "pdf_file b = \<lparr>file_type = js ''application/pdf'', file_read = Loaded (Some b)\<rparr>"

text \<open>The bytes \<^verbatim>\<open>%PDFHi you\<close>, decoded by \<open>toy_pdfjs\<close> to the text \<^verbatim>\<open>Hi you\<close> and a newline.\<close>

definition hi_you :: File where
  "hi_you = pdf_file [0x25, 0x50, 0x44, 0x46, 0x48, 0x69, 0x20, 0x79, 0x6F, 0x75]"

text \<open>The bytes \<^verbatim>\<open>Hi\<close>, which \<open>toy_pdfjs\<close> rejects.\<close>

definition not_a_pdf :: File where
  "not_a_pdf = pdf_file [0x48, 0x69]"

text \<open>Histories: the states reached from mounting by the events listed.\<close>

definition mounted :: state where
  "mounted = run [alice, bob] []"

definition loaded_example :: state where
  "loaded_example = run [alice, bob] [FileChosen toy_window (Some hi_you)]"

definition paused_example :: state where
  "paused_example =
     run [alice, bob] [FileChosen toy_window (Some hi_you), PlayButton, PauseButton]"

definition replayed_example :: state where
  "replayed_example =
     run [alice, bob] [FileChosen toy_window (Some hi_you), PlayButton, StopButton, PlayButton]"

definition voices_gone_example :: state where
  "voices_gone_example = run [alice] [VoicesChanged []]"

definition no_voices_example :: state where
  "no_voices_example = run [] [FileChosen toy_window (Some hi_you)]"

lemmas hook_defs = play_def pause_def stop_def handleEnd_def playState_def app_play_def
  setSelectedVoice_def utterance_onboundary_def utterance_onend_def utterance_onerror_def
  handleFileProcessed_def handleBoundary_def

lemmas example_defs = alice_def bob_def option_of_def js_def initial_def mount_def
  voiceschanged_def handleVoicesChanged_def run_def toy_pdfjs_def toy_window_def
  pdf_file_def hi_you_def not_a_pdf_def mounted_def loaded_example_def paused_example_def
  replayed_example_def voices_gone_example_def no_voices_example_def

lemmas parse_defs = handleFile_def parsePdf_def parseDocx_def

lemmas split_defs = substring_def split_whitespace_def split_loop.simps match_at_def
  is_whitespace_def

section \<open>The split of the source and the split of the specification agree\<close>

declare split_loop.simps [simp del] tokens_between_runs.simps [simp del]

lemma substring_take_drop:
  "p \<le> q \<Longrightarrow> q \<le> length S \<Longrightarrow> substring S (int p) (int q) = take (q - p) (drop p S)"
  by (simp add: substring_def Let_def min_def max_def nat_diff_distrib')

lemma substring_prefix: "substring S 0 c = take (nat c) S"
  by (simp add: substring_def Let_def min_def max_def)

lemma segment_no_whitespace:
  assumes "p \<le> q" "q \<le> length S" "\<forall>i. p \<le> i \<and> i < q \<longrightarrow> \<not> is_whitespace (S ! i)"
  shows "\<forall>c \<in> set (take (q - p) (drop p S)). \<not> is_whitespace c"
proof
  fix c assume "c \<in> set (take (q - p) (drop p S))"
  then obtain i where i: "i < q - p" "c = take (q - p) (drop p S) ! i"
    by (auto simp: in_set_conv_nth)
  then have "c = S ! (p + i)" using assms by simp
  with i assms show "\<not> is_whitespace c" by simp
qed

lemma drop_split_at:
  assumes "p \<le> q" "q \<le> length S"
  shows "drop p S = take (q - p) (drop p S) @ drop q S"
proof -
  have "drop p S = take (q - p) (drop p S) @ drop (q - p) (drop p S)"
    by (rule append_take_drop_id [symmetric])
  also have "drop (q - p) (drop p S) = drop q S" using assms by simp
  finally show ?thesis .
qed

lemma match_at_Some:
  assumes "match_at S q = Some lastIndex"
  shows "q < length S" and "is_whitespace (S ! q)" and "q < lastIndex"
    and "lastIndex \<le> length S"
    and "dropWhile is_whitespace (drop q S) = drop lastIndex S"
proof -
  from assms show q: "q < length S" and ws: "is_whitespace (S ! q)"
    by (auto simp: match_at_def split: if_splits)
  from assms have li: "lastIndex = q + length (takeWhile is_whitespace (drop q S))"
    by (auto simp: match_at_def split: if_splits)
  from q have "drop q S = S ! q # drop (Suc q) S"
    by (simp add: Cons_nth_drop_Suc)
  with ws li show "q < lastIndex" by simp
  have "length (takeWhile is_whitespace (drop q S)) \<le> length (drop q S)"
    by (rule length_takeWhile_le)
  with li q show "lastIndex \<le> length S" by simp
  from li show "dropWhile is_whitespace (drop q S) = drop lastIndex S"
    by (simp add: dropWhile_eq_drop add.commute)
qed

lemma match_at_None: "q < length S \<Longrightarrow> match_at S q = None \<Longrightarrow> \<not> is_whitespace (S ! q)"
  by (simp add: match_at_def split: if_splits)

lemma tokens_at_whitespace:
  assumes "p \<le> q" "\<forall>i. p \<le> i \<and> i < q \<longrightarrow> \<not> is_whitespace (S ! i)"
    and m: "match_at S q = Some lastIndex"
  shows "tokens_between_runs (drop p S) =
    substring S (int p) (int q) # tokens_between_runs (drop lastIndex S)"
proof -
  note q = match_at_Some(1) [OF m] and ws = match_at_Some(2) [OF m]
  let ?w = "take (q - p) (drop p S)"
  have split: "drop p S = ?w @ drop q S"
    using assms q by (intro drop_split_at) auto
  have nows: "\<forall>c \<in> set ?w. \<not> is_whitespace c"
    using assms q by (intro segment_no_whitespace) auto
  have dq: "drop q S = S ! q # drop (Suc q) S"
    using q by (simp add: Cons_nth_drop_Suc)
  have tw: "takeWhile (\<lambda>c. \<not> is_whitespace c) (drop p S) = ?w"
    by (subst split, subst takeWhile_append2) (use nows dq ws in auto)
  have dw: "dropWhile (\<lambda>c. \<not> is_whitespace c) (drop p S) = drop q S"
    by (subst split, subst dropWhile_append2) (use nows dq ws in auto)
  have "drop q S \<noteq> []" using dq by simp
  then show ?thesis
    using assms q
    by (subst tokens_between_runs.simps)
      (simp add: tw dw Let_def match_at_Some(5) [OF m] substring_take_drop)
qed

lemma tokens_no_whitespace:
  assumes "p \<le> length S" "\<forall>i. p \<le> i \<and> i < length S \<longrightarrow> \<not> is_whitespace (S ! i)"
  shows "tokens_between_runs (drop p S) = [substring S (int p) (int (length S))]"
proof -
  have "\<forall>c \<in> set (take (length S - p) (drop p S)). \<not> is_whitespace c"
    using assms by (intro segment_no_whitespace) auto
  then have nows: "\<forall>c \<in> set (drop p S). \<not> is_whitespace c" by simp
  then have "takeWhile (\<lambda>c. \<not> is_whitespace c) (drop p S) = drop p S"
    and "dropWhile (\<lambda>c. \<not> is_whitespace c) (drop p S) = []"
    by auto
  then show ?thesis
    using assms
    by (subst tokens_between_runs.simps) (simp add: Let_def substring_take_drop)
qed

text \<open>
  The loop invariant: \<open>p \<le> q \<le> size\<close> and no whitespace in \<open>S[p, q)\<close>.  Under it the loop
  returns \<open>A\<close> followed by the tokens of \<open>S[p, size)\<close>; the branch \<open>e = p\<close> is never taken.
\<close>

lemma split_loop_tokens:
  "p \<le> q \<Longrightarrow> q \<le> length S \<Longrightarrow> \<forall>i. p \<le> i \<and> i < q \<longrightarrow> \<not> is_whitespace (S ! i) \<Longrightarrow>
   split_loop S p q A = A @ tokens_between_runs (drop p S)"
proof (induction S p q A rule: split_loop.induct)
  case (1 S p q A)
  show ?case
  proof (cases "q < length S")
    case False
    with 1 have "q = length S" by simp
    with 1 show ?thesis
      by (subst split_loop.simps) (simp add: tokens_no_whitespace)
  next
    case inside: True
    show ?thesis
    proof (cases "match_at S q")
      case None
      have "\<not> is_whitespace (S ! q)"
        using inside None by (rule match_at_None)
      then have "\<forall>i. p \<le> i \<and> i < q + 1 \<longrightarrow> \<not> is_whitespace (S ! i)"
        using "1.prems"(3) by (auto simp: less_Suc_eq)
      then have "split_loop S p (q + 1) A = A @ tokens_between_runs (drop p S)"
        using 1 inside None by (intro "1.IH"(1)) auto
      then show ?thesis
        using inside None by (subst split_loop.simps) simp
    next
      case (Some lastIndex)
      let ?e = "min lastIndex (length S)"
      have e: "?e = lastIndex" "q < lastIndex" "lastIndex \<le> length S"
        using match_at_Some [OF Some] by auto
      with "1.prems" have ne: "?e \<noteq> p" by simp
      have "split_loop S ?e ?e (A @ [substring S (int p) (int q)]) =
          (A @ [substring S (int p) (int q)]) @ tokens_between_runs (drop ?e S)"
        using inside Some ne e by (intro "1.IH"(3)) auto
      then show ?thesis
        using inside Some ne e "1.prems"
        by (subst split_loop.simps)
          (simp add: tokens_at_whitespace [of p q S lastIndex] Let_def)
    qed
  qed
qed

lemma split_whitespace_tokens: "split_whitespace S = tokens_between_runs S"
proof (cases "S = []")
  case True
  then show ?thesis
    by (simp add: split_whitespace_def tokens_between_runs.simps)
next
  case False
  then show ?thesis
    using split_loop_tokens [of 0 0 S "[]"] by (simp add: split_whitespace_def)
qed

lemma tokens_nonempty: "tokens_between_runs s \<noteq> []"
  by (subst tokens_between_runs.simps) (simp add: Let_def)

lemma split_whitespace_nonempty: "split_whitespace S \<noteq> []"
  by (simp add: split_whitespace_tokens tokens_nonempty)

section \<open>Boundary events\<close>

text \<open>
  C1.  For every text \<open>T\<close> and every character offset \<open>c\<close> of a boundary event, the handler
  sets \<open>currentWordIndex\<close> to the number of tokens obtained by splitting the prefix
  \<open>T[0, c)\<close> on whitespace runs, minus one.  The prefix is the first \<open>c\<close> code units of \<open>T\<close>.
  For the text ``Hello brave world'', whose tokens are ``Hello'', ``brave'' and ``world'',
  the offset 6 gives the index 1.
\<close>

theorem handleBoundary_word_index:
  "currentWordIndex (handleBoundary T c s) =
     int (length (tokens_between_runs (substring T 0 c))) - 1 \<and>
   substring T 0 c = take (nat c) T \<and>
   words (s\<lparr>extractedText := js ''Hello brave world''\<rparr>) =
     [js ''Hello'', js ''brave'', js ''world''] \<and>
   currentWordIndex (handleBoundary (js ''Hello brave world'') 6 s) = 1"
proof (intro conjI)
  show "currentWordIndex (handleBoundary T c s) =
      int (length (tokens_between_runs (substring T 0 c))) - 1"
    by (simp add: handleBoundary_def Let_def split_whitespace_tokens)
  show "substring T 0 c = take (nat c) T"
    by (rule substring_prefix)
  show "words (s\<lparr>extractedText := js ''Hello brave world''\<rparr>) =
      [js ''Hello'', js ''brave'', js ''world'']"
    by (simp add: words_def js_def split_defs)
  show "currentWordIndex (handleBoundary (js ''Hello brave world'') 6 s) = 1"
    by (simp add: handleBoundary_def js_def split_defs)
qed

text \<open>
  C10.  Splitting any string, the empty one included, yields at least one token.  So for
  every text and every offset the index a boundary event computes is at least 0, never
  \<open>-1\<close>, and a boundary at offset 0 sets it to 0.
\<close>

theorem handleBoundary_index_nonnegative:
  "1 \<le> length (split_whitespace S) \<and>
   split_whitespace [] = [[]] \<and>
   0 \<le> currentWordIndex (handleBoundary T c s) \<and>
   currentWordIndex (handleBoundary T c s) \<noteq> - 1 \<and>
   currentWordIndex (handleBoundary T 0 s) = 0"
proof -
  have len: "1 \<le> length (split_whitespace S)" for S
    using split_whitespace_nonempty [of S] by (cases "split_whitespace S") auto
  have idx: "0 \<le> currentWordIndex (handleBoundary T c s)"
    using split_whitespace_nonempty [of "substring T 0 c"]
    by (simp add: handleBoundary_def Let_def)
  have zero: "currentWordIndex (handleBoundary T 0 s) = 0"
    by (simp add: handleBoundary_def Let_def substring_def split_whitespace_def)
  have never: "currentWordIndex (handleBoundary T c s) \<noteq> - 1"
    using idx by simp
  have empty: "split_whitespace [] = [[]]"
    by (simp add: split_whitespace_def)
  from len [of S] empty idx never zero show ?thesis
    by blast
qed

section \<open>Stop\<close>

text \<open>
  C6.  From any state \<open>stop\<close> leaves the session Idle with \<open>currentWordIndex = -1\<close> and
  an empty ref, and sends exactly one cancel request.  It is idempotent and safe to call
  when Idle: a second \<open>stop\<close>, called on the Idle state the first one left, changes
  nothing but the log of requests, to which it adds its own cancel.
\<close>

theorem stop_idle:
  "playState (stop s) = Idle \<and>
   currentWordIndex (stop s) = - 1 \<and>
   requests (stop s) = requests s @ [Cancel] \<and>
   utteranceRef (stop s) = None \<and>
   stop (stop s) = (stop s)\<lparr>requests := requests (stop s) @ [Cancel]\<rparr>"
  by (simp add: stop_def handleEnd_def playState_def)

section \<open>Play\<close>

text \<open>
  C7.  In a Paused state with a live utterance in the ref, \<open>play\<close> sends one resume
  request and nothing else: no utterance is constructed, the ref keeps the same utterance,
  and the state becomes Speaking.  Starting from a state that is not paused and has a
  voice selected, the sequence play(``Some text''), pause(), play() sends cancel, one
  speak, pause, resume: exactly one speak request, and the ref still holds the utterance
  of that request.
\<close>

theorem play_resumes_paused:
  "(isPaused s \<and> utteranceRef s = Some u \<longrightarrow>
      requests (play cb txt s) = requests s @ [ResumeRequest] \<and>
      utteranceRef (play cb txt s) = Some u \<and>
      constructed (play cb txt s) = constructed s \<and>
      playState (play cb txt s) = Speaking) \<and>
   (selectedVoice s0 = Some v \<and> \<not> isPaused s0 \<longrightarrow>
      (let created = \<lparr>handle = constructed s0, utterance_text = js ''Some text'',
                       voice = find (\<lambda>b. voiceURI b = uri v) (getVoices s0),
                       onboundary = cb0\<rparr>;
           s3 = play cb1 txt1 (pause (play cb0 (js ''Some text'') s0))
       in requests s3 = requests s0 @ [Cancel, Speak created, PauseRequest, ResumeRequest] \<and>
          utteranceRef s3 = Some created \<and>
          playState s3 = Speaking))"
  by (simp add: play_def pause_def playState_def js_def Let_def)

theorem play_resumes_paused_witness:
  "isPaused paused_example \<and>
   utteranceRef paused_example =
     Some \<lparr>handle = 0, utterance_text = js ''Hi you'' @ [0x000A], voice = Some alice,
            onboundary = HandleBoundary (js ''Hi you'' @ [0x000A])\<rparr> \<and>
   requests (play (HandleBoundary []) [] paused_example) =
     requests paused_example @ [ResumeRequest] \<and>
   playState (play (HandleBoundary []) [] paused_example) = Speaking \<and>
   selectedVoice mounted = Some (option_of alice) \<and>
   \<not> isPaused mounted \<and>
   requests (play (HandleBoundary []) []
       (pause (play (HandleBoundary []) (js ''Some text'') mounted))) =
     [Cancel,
      Speak \<lparr>handle = 0, utterance_text = js ''Some text'', voice = Some alice,
              onboundary = HandleBoundary []\<rparr>,
      PauseRequest, ResumeRequest]"
proof -
  let ?u = "\<lparr>handle = 0, utterance_text = js ''Hi you'' @ [0x000A], voice = Some alice,
             onboundary = HandleBoundary (js ''Hi you'' @ [0x000A])\<rparr>"
  have paused: "isPaused paused_example" "utteranceRef paused_example = Some ?u"
    by (simp_all add: example_defs hook_defs parse_defs Let_def)
  have start: "selectedVoice mounted = Some (option_of alice)" "\<not> isPaused mounted"
    "requests mounted = []" "constructed mounted = 0" "getVoices mounted = [alice, bob]"
    by (simp_all add: example_defs Let_def)
  have found: "find (\<lambda>b. voiceURI b = uri (option_of alice)) [alice, bob] = Some alice"
    by (simp add: example_defs)
  from play_resumes_paused [of paused_example ?u "HandleBoundary []" "[]" mounted
      "option_of alice" "HandleBoundary []" "HandleBoundary []" "[]"] paused start found
  show ?thesis
    by (simp add: Let_def)
qed

text \<open>
  C8.  When \<open>play\<close> starts a new utterance (the text is not empty and the state is not
  Paused with a live utterance) and the URI of the selected voice is not among the URIs
  of the backend's voice list at that moment, the utterance is still submitted: a speak
  request follows the cancel, the utterance carries no voice, and the state is Speaking.
\<close>

theorem play_unresolved_voice:
  assumes "selectedVoice s = Some v"
    and "uri v \<notin> voiceURI ` set (getVoices s)"
    and "txt \<noteq> []"
    and "\<not> (isPaused s \<and> utteranceRef s \<noteq> None)"
  shows "requests (play cb txt s) =
      requests s @ [Cancel, Speak \<lparr>handle = constructed s, utterance_text = txt,
                                   voice = None, onboundary = cb\<rparr>] \<and>
    playState (play cb txt s) = Speaking"
proof -
  have "find (\<lambda>b. voiceURI b = uri v) (getVoices s) = None"
    using assms(2) by (force simp: find_None_iff image_iff)
  with assms show ?thesis
    by (auto simp: play_def playState_def Let_def)
qed

theorem play_unresolved_voice_witness:
  "selectedVoice voices_gone_example = Some (option_of alice) \<and>
   uri (option_of alice) \<notin> voiceURI ` set (getVoices voices_gone_example) \<and>
   js ''Hi'' \<noteq> [] \<and>
   \<not> (isPaused voices_gone_example \<and> utteranceRef voices_gone_example \<noteq> None) \<and>
   requests (play (HandleBoundary (js ''Hi'')) (js ''Hi'') voices_gone_example) =
     [Cancel, Speak \<lparr>handle = 0, utterance_text = js ''Hi'', voice = None,
                      onboundary = HandleBoundary (js ''Hi'')\<rparr>] \<and>
   playState (play (HandleBoundary (js ''Hi'')) (js ''Hi'') voices_gone_example) = Speaking"
proof -
  have h: "selectedVoice voices_gone_example = Some (option_of alice)"
    "uri (option_of alice) \<notin> voiceURI ` set (getVoices voices_gone_example)"
    "js ''Hi'' \<noteq> []"
    "\<not> (isPaused voices_gone_example \<and> utteranceRef voices_gone_example \<noteq> None)"
    by (simp_all add: example_defs Let_def)
  have start: "requests voices_gone_example = []" "constructed voices_gone_example = 0"
    by (simp_all add: example_defs Let_def)
  from play_unresolved_voice [OF h, of "HandleBoundary (js ''Hi'')"] h start
  show ?thesis
    by simp
qed

text \<open>
  C3.  The claim: with an empty catalog and no voice ever selected, \<open>play\<close> of a non-empty
  text still sends a speak request.  The code guards the new utterance with
  \<^verbatim>\<open>text && selectedVoice\<close>.  Over a backend that reports no voices, after a text is
  loaded, the catalog is empty, no voice is selected, the text is not empty, and the play
  button changes nothing: the log of requests still holds only the cancel of the load.
\<close>

theorem play_empty_catalog_counterexample:
  "voices no_voices_example = [] \<and>
   selectedVoice no_voices_example = None \<and>
   extractedText no_voices_example = js ''Hi you'' @ [0x000A] \<and>
   requests (app_play no_voices_example) = [Cancel] \<and>
   app_play no_voices_example = no_voices_example"
  by (simp add: example_defs hook_defs parse_defs Let_def)

text \<open>
  A state with no voice selected is neither Speaking nor Paused, after any history:
  no handler clears the selection, and only \<open>play\<close> with a selection sets a flag.
\<close>

lemma handleVoicesChanged_flags:
  "isPaused (handleVoicesChanged seen s) = isPaused s"
  "isSpeaking (handleVoicesChanged seen s) = isSpeaking s"
  "selectedVoice (handleVoicesChanged seen s) = None \<Longrightarrow> selectedVoice s = None"
  by (auto simp: handleVoicesChanged_def Let_def split: if_splits)

lemma handleFile_unselected:
  assumes "selectedVoice (handleFile w chosen s) = None"
    and "selectedVoice s = None \<longrightarrow> \<not> isPaused s \<and> \<not> isSpeaking s"
  shows "\<not> isPaused (handleFile w chosen s) \<and> \<not> isSpeaking (handleFile w chosen s)"
  using assms
  by (cases chosen; cases "isProcessing s")
    (auto simp: handleFile_def Let_def handleFileProcessed_def stop_def handleEnd_def
      split: sum.splits)

lemma fire_unselected:
  assumes "selectedVoice (fire e s) = None"
    and "selectedVoice s = None \<longrightarrow> \<not> isPaused s \<and> \<not> isSpeaking s"
  shows "\<not> isPaused (fire e s) \<and> \<not> isSpeaking (fire e s)"
proof (cases e)
  case (VoicesChanged vs)
  with assms show ?thesis
    using handleVoicesChanged_flags [of None "s\<lparr>getVoices := vs\<rparr>"]
    by (simp add: voiceschanged_def)
next
  case (SelectVoice v)
  with assms show ?thesis by (simp add: setSelectedVoice_def)
next
  case PlayButton
  with assms show ?thesis
    by (auto simp: app_play_def play_def Let_def split: if_splits option.splits)
next
  case PauseButton
  with assms show ?thesis by (auto simp: pause_def split: if_splits)
next
  case StopButton
  with assms show ?thesis by (simp add: stop_def handleEnd_def)
next
  case (FileChosen w chosen)
  with assms show ?thesis using handleFile_unselected [of w chosen s] by simp
next
  case (BoundaryEvent h c)
  with assms show ?thesis
    by (cases "spoken (requests s) h"; cases "onboundary (the (spoken (requests s) h))")
      (auto simp: utterance_onboundary_def handleBoundary_def Let_def)
next
  case (EndEvent h)
  with assms show ?thesis
    by (cases "spoken (requests s) h") (auto simp: utterance_onend_def handleEnd_def)
next
  case (ErrorEvent h)
  with assms show ?thesis
    by (cases "spoken (requests s) h") (auto simp: utterance_onerror_def)
qed

lemma fold_fire_unselected:
  "selectedVoice (fold fire evs s) = None \<Longrightarrow>
   (selectedVoice s = None \<longrightarrow> \<not> isPaused s \<and> \<not> isSpeaking s) \<Longrightarrow>
   \<not> isPaused (fold fire evs s) \<and> \<not> isSpeaking (fold fire evs s)"
proof (induction evs arbitrary: s)
  case Nil
  then show ?case by simp
next
  case (Cons e evs)
  have "selectedVoice (fire e s) = None \<longrightarrow> \<not> isPaused (fire e s) \<and> \<not> isSpeaking (fire e s)"
    using fire_unselected [of e s] Cons.prems(2) by blast
  with Cons.IH [of "fire e s"] Cons.prems(1) show ?case by simp
qed

lemma run_unselected:
  assumes "selectedVoice (run vs evs) = None"
  shows "\<not> isPaused (run vs evs) \<and> \<not> isSpeaking (run vs evs)"
proof -
  have "\<not> isPaused (mount (initial vs)) \<and> \<not> isSpeaking (mount (initial vs))"
    by (simp add: mount_def initial_def handleVoicesChanged_flags)
  with assms fold_fire_unselected [of evs "mount (initial vs)"] show ?thesis
    by (simp add: run_def)
qed

text \<open>
  C3, as the code has it.  In every state reached from mounting in which no voice is
  selected (in particular when the backend never reported a voice), \<open>play\<close> of any text
  is a no-op: the state, and with it the log of requests, is unchanged.  No speak
  request is sent and nothing fails.
\<close>

theorem play_without_voice_noop:
  assumes "selectedVoice (run vs evs) = None"
  shows "play cb txt (run vs evs) = run vs evs \<and>
    requests (play cb txt (run vs evs)) = requests (run vs evs) \<and>
    playState (play cb txt (run vs evs)) = Idle"
  using assms run_unselected [OF assms] by (simp add: play_def playState_def)

theorem play_without_voice_noop_witness:
  "selectedVoice (run [] [FileChosen toy_window (Some hi_you)]) = None \<and>
   play (HandleBoundary (js ''Hi'')) (js ''Hi'') (run [] [FileChosen toy_window (Some hi_you)]) =
     run [] [FileChosen toy_window (Some hi_you)] \<and>
   playState (play (HandleBoundary (js ''Hi'')) (js ''Hi'')
       (run [] [FileChosen toy_window (Some hi_you)])) = Idle"
proof -
  have h: "selectedVoice (run [] [FileChosen toy_window (Some hi_you)]) = None"
    by (simp add: example_defs hook_defs parse_defs Let_def)
  from play_without_voice_noop [OF h, of "HandleBoundary (js ''Hi'')" "js ''Hi''"] h
  show ?thesis
    by blast
qed

section \<open>The voice catalog\<close>

text \<open>
  Had the handler tested the current selection, a selected voice would survive every
  refresh.
\<close>

lemma handleVoicesChanged_keeps_seen_selection:
  "selectedVoice (handleVoicesChanged (Some v) s) = selectedVoice s"
  by (simp add: handleVoicesChanged_def Let_def)

text \<open>
  C2.  The claim: once the user has selected a voice \<open>v\<close>, a refresh with a backend list
  that still contains \<open>v\<close> leaves \<open>v\<close> selected.  The registered handler tests the
  \<^verbatim>\<open>selectedVoice\<close> of the first render, which is always \<^verbatim>\<open>null\<close>.  Over the backend
  voices Alice and Bob, mounting selects Alice; the user selects Bob; the backend fires
  \<^verbatim>\<open>voiceschanged\<close> with the same list: Bob is still in the catalog, and the selection is
  Alice again.
\<close>

theorem voiceschanged_overwrites_selection:
  "selectedVoice (run [alice, bob] [SelectVoice (option_of bob)]) = Some (option_of bob) \<and>
   voices (run [alice, bob] [SelectVoice (option_of bob), VoicesChanged [alice, bob]]) =
     [option_of alice, option_of bob] \<and>
   selectedVoice (run [alice, bob] [SelectVoice (option_of bob), VoicesChanged [alice, bob]]) =
     Some (option_of alice) \<and>
   option_of alice \<noteq> option_of bob"
  by (simp add: example_defs setSelectedVoice_def Let_def)

section \<open>Utterance events\<close>

text \<open>
  C4.  The claim: whenever the state is Idle, \<open>currentWordIndex = -1\<close>, also after an
  error event during speech.  \<^verbatim>\<open>onend\<close> and \<^verbatim>\<open>stop\<close> call \<^verbatim>\<open>onEnd\<close>, which resets the
  index; \<^verbatim>\<open>onerror\<close> clears the two flags and does not.  After loading ``Hi you'',
  pressing play, a boundary event at offset 3 and an error event, the state is Idle and
  the index is still 1; the same history ending in an end event has the index \<open>-1\<close>.
\<close>

theorem error_event_keeps_index:
  "playState (run [alice, bob]
      [FileChosen toy_window (Some hi_you), PlayButton, BoundaryEvent 0 3, ErrorEvent 0]) = Idle \<and>
   currentWordIndex (run [alice, bob]
      [FileChosen toy_window (Some hi_you), PlayButton, BoundaryEvent 0 3, ErrorEvent 0]) = 1 \<and>
   currentWordIndex (run [alice, bob]
      [FileChosen toy_window (Some hi_you), PlayButton, BoundaryEvent 0 3, EndEvent 0]) = - 1"
  by (simp add: example_defs hook_defs parse_defs split_defs Let_def)

text \<open>
  C5.  The claim: a boundary event of a stale utterance never changes \<open>currentWordIndex\<close>,
  events being matched against the active utterance.  After play, stop and play again
  the ref holds the utterance with handle 1, the one with handle 0 was cancelled, and the
  index is \<open>-1\<close>; a boundary event of utterance 0 at offset 3 sets the index to 1.
\<close>

theorem stale_boundary_counterexample:
  "map_option handle (utteranceRef replayed_example) = Some 1 \<and>
   map_option handle (spoken (requests replayed_example) 0) = Some 0 \<and>
   currentWordIndex replayed_example = - 1 \<and>
   currentWordIndex (fire (BoundaryEvent 0 3) replayed_example) = 1"
  by (simp add: example_defs hook_defs parse_defs split_defs Let_def)

text \<open>
  C5, as the code has it.  The boundary handler of an utterance never looks at the ref:
  in any state, for any utterance (active or not), it sets \<open>currentWordIndex\<close> to the
  token count, minus one, of the first \<open>c\<close> code units of the text that was loaded when
  the utterance was created, and changes nothing else.
\<close>

theorem boundary_event_unmatched:
  "utterance_onboundary u c s =
     s\<lparr>currentWordIndex :=
         int (length (tokens_between_runs (take (nat c) (capturedText (onboundary u))))) - 1\<rparr> \<and>
   utteranceRef (utterance_onboundary u c s) = utteranceRef s"
  by (cases "onboundary u")
    (simp add: utterance_onboundary_def handleBoundary_def Let_def substring_prefix
      split_whitespace_tokens)

section \<open>A file that is not a PDF\<close>

text \<open>
  C9.  A file of type \<^verbatim>\<open>application/pdf\<close>, chosen while no other file is being processed,
  read successfully, whose bytes pdf.js rejects: \<open>parsePdf\<close> fails with the
  corrupt-document message, \<open>handleFile\<close> stores that one message in \<open>error\<close> and
  changes nothing else, so \<open>extractedText\<close> is unchanged and no request is sent.
\<close>

theorem corrupt_pdf_rejected:
  assumes "file_type f = js ''application/pdf''"
    and "\<not> isProcessing s"
    and "pdfjsLib w = Some getDocument"
    and "file_read f = Loaded (Some b)"
    and "getDocument b = None"
  shows "parsePdf w f = Inl ''Could not parse the PDF file. It may be corrupt or encrypted.'' \<and>
    handleFile w (Some f) s =
      s\<lparr>error := Some ''Could not parse the PDF file. It may be corrupt or encrypted.''\<rparr> \<and>
    extractedText (handleFile w (Some f) s) = extractedText s \<and>
    requests (handleFile w (Some f) s) = requests s"
  using assms by (simp add: handleFile_def parsePdf_def Let_def)

theorem corrupt_pdf_rejected_witness:
  "file_type not_a_pdf = js ''application/pdf'' \<and>
   \<not> isProcessing loaded_example \<and>
   pdfjsLib toy_window = Some toy_pdfjs \<and>
   file_read not_a_pdf = Loaded (Some [0x48, 0x69]) \<and>
   toy_pdfjs [0x48, 0x69] = None \<and>
   error (handleFile toy_window (Some not_a_pdf) loaded_example) =
     Some ''Could not parse the PDF file. It may be corrupt or encrypted.'' \<and>
   extractedText (handleFile toy_window (Some not_a_pdf) loaded_example) =
     js ''Hi you'' @ [0x000A]"
proof -
  have h: "file_type not_a_pdf = js ''application/pdf''"
    "\<not> isProcessing loaded_example"
    "pdfjsLib toy_window = Some toy_pdfjs"
    "file_read not_a_pdf = Loaded (Some [0x48, 0x69])"
    "toy_pdfjs [0x48, 0x69] = None"
    by (simp_all add: example_defs hook_defs parse_defs Let_def)
  have t: "extractedText loaded_example = js ''Hi you'' @ [0x000A]"
    by (simp add: example_defs hook_defs parse_defs Let_def)
  from corrupt_pdf_rejected [OF h] h t show ?thesis
    by simp
qed

end
